theory Spec2Isabelle
  imports Main
begin

section \<open>Strings and arrays of the platform\<close>

text \<open>
  Strings are \<^typ>\<open>string\<close>, one \<^typ>\<open>char\<close> per code unit; the code units are those
  from 0 to 255. On them \<open>trim\<close> strips the platform's white space and line terminators
  (tab, line feed, vertical tab, form feed, carriage return, space, no-break space), and
  \<open>toLowerCase\<close> maps \<open>A\<close>..\<open>Z\<close> and the capital letters from \<open>0xC0\<close> to \<open>0xDE\<close>
  (all but the multiplication sign \<open>0xD7\<close>) to the letter 32 places up, and leaves every
  other code unit alone.
\<close>

definition isWhiteSpace :: "char \<Rightarrow> bool" where
  "isWhiteSpace c =
     (c \<in> set [CHR 0x09, CHR 0x0A, CHR 0x0B, CHR 0x0C, CHR 0x0D, CHR 0x20, CHR 0xA0])"

definition trim :: "string \<Rightarrow> string" where
  "trim s = rev (dropWhile isWhiteSpace (rev (dropWhile isWhiteSpace s)))"

definition upperCaseLetters :: string where
  "upperCaseLetters =
     ''ABCDEFGHIJKLMNOPQRSTUVWXYZ'' @
       [CHR 0xC0, CHR 0xC1, CHR 0xC2, CHR 0xC3, CHR 0xC4, CHR 0xC5, CHR 0xC6, CHR 0xC7,
        CHR 0xC8, CHR 0xC9, CHR 0xCA, CHR 0xCB, CHR 0xCC, CHR 0xCD, CHR 0xCE, CHR 0xCF,
        CHR 0xD0, CHR 0xD1, CHR 0xD2, CHR 0xD3, CHR 0xD4, CHR 0xD5, CHR 0xD6, CHR 0xD8,
        CHR 0xD9, CHR 0xDA, CHR 0xDB, CHR 0xDC, CHR 0xDD, CHR 0xDE]"

definition lowerCaseLetters :: string where
  "lowerCaseLetters =
     ''abcdefghijklmnopqrstuvwxyz'' @
       [CHR 0xE0, CHR 0xE1, CHR 0xE2, CHR 0xE3, CHR 0xE4, CHR 0xE5, CHR 0xE6, CHR 0xE7,
        CHR 0xE8, CHR 0xE9, CHR 0xEA, CHR 0xEB, CHR 0xEC, CHR 0xED, CHR 0xEE, CHR 0xEF,
        CHR 0xF0, CHR 0xF1, CHR 0xF2, CHR 0xF3, CHR 0xF4, CHR 0xF5, CHR 0xF6, CHR 0xF8,
        CHR 0xF9, CHR 0xFA, CHR 0xFB, CHR 0xFC, CHR 0xFD, CHR 0xFE]"

definition lowerChar :: "char \<Rightarrow> char" where
  "lowerChar c =
     (case map_of (zip upperCaseLetters lowerCaseLetters) c of
        Some l \<Rightarrow> l
      | None \<Rightarrow> c)"

definition toLowerCase :: "string \<Rightarrow> string" where
  "toLowerCase s = map lowerChar s"

text \<open>\<open>s.startsWith(q)\<close> and \<open>s.includes(q)\<close> on strings.\<close>

fun startsWith :: "'a list \<Rightarrow> 'a list \<Rightarrow> bool" where
  "startsWith s [] = True"
| "startsWith [] (q # qs) = False"
| "startsWith (c # cs) (q # qs) = (c = q \<and> startsWith cs qs)"

fun stringIncludes :: "'a list \<Rightarrow> 'a list \<Rightarrow> bool" where
  "stringIncludes [] q = (q = [])"
| "stringIncludes (c # cs) q = (startsWith (c # cs) q \<or> stringIncludes cs q)"

text \<open>\<open>n.toString()\<close> for a non-negative integer: its decimal digits.\<close>

definition digitChar :: "nat \<Rightarrow> char" where
  "digitChar d = ''0123456789'' ! d"

fun toString :: "nat \<Rightarrow> string" where
  "toString n = (if n < 10 then [digitChar n] else toString (n div 10) @ [digitChar (n mod 10)])"

declare toString.simps [simp del]

section \<open>What every page shares: local storage, toasts, navigation\<close>

text \<open>
  The values a response body or a parsed text can hold, and \<open>undefined\<close>, which a
  missing property reads as. An object lists each of its keys once.
\<close>

datatype json =
    JUndefined
  | JNull
  | JBool bool
  | JNum int
  | JStr string
  | JArr "json list"
  | JObj "(string \<times> json) list"

fun truthy :: "json \<Rightarrow> bool" where
  "truthy JUndefined = False"
| "truthy JNull = False"
| "truthy (JBool b) = b"
| "truthy (JNum n) = (n \<noteq> 0)"
| "truthy (JStr s) = (s \<noteq> [])"
| "truthy (JArr xs) = True"
| "truthy (JObj kvs) = True"

text \<open>
  \<open>data.k\<close> for a property name \<open>k\<close> that no prototype defines (\<open>token\<close>, \<open>user\<close>,
  \<open>message\<close>): \<open>None\<close> is the \<open>TypeError\<close> of reading a property of \<open>null\<close> or
  \<open>undefined\<close>; a value without the property reads as \<open>undefined\<close>.
\<close>

fun getProp :: "json \<Rightarrow> string \<Rightarrow> json option" where
  "getProp JUndefined k = None"
| "getProp JNull k = None"
| "getProp (JObj kvs) k = Some (case map_of kvs k of None \<Rightarrow> JUndefined | Some v \<Rightarrow> v)"
| "getProp v k = Some JUndefined"

datatype variant = Default | Destructive

datatype toast = Toast string string variant | ToastValue string json variant
  \<comment> \<open>title, description, variant; \<open>ToastValue\<close> when the description is a value taken
      from a response\<close>

record browser =
  localStorage :: "string \<rightharpoonup> string"
  toasts :: "toast list"
  navigations :: "string list"

text \<open>
  The code tests a stored token by its truthiness (\<open>if (token)\<close>,
  \<open>token && {...}\<close>): a missing key and the empty string both count as no token.
\<close>

definition truthyString :: "string option \<Rightarrow> bool" where
  "truthyString v = (case v of None \<Rightarrow> False | Some s \<Rightarrow> s \<noteq> [])"

section \<open>Dashboard: the document list and its filter\<close>

record Document =
  doc_id :: string
  title :: string
  content :: string
  tags :: "string list"
  summary :: "string option"
  createdBy :: "string \<times> string"  \<comment> \<open>email, role\<close>
  createdAt :: string
  updatedAt :: string

text \<open>
  \<open>filterDocuments\<close> reads \<open>documents\<close>, \<open>searchQuery\<close> and \<open>selectedTags\<close> and
  stores its result with \<open>setFilteredDocuments\<close>; the function below returns the stored
  list. \<open>doc.summary && ...\<close> is false for an absent and for an empty summary.
\<close>

definition filterDocuments :: "Document list \<Rightarrow> string \<Rightarrow> string list \<Rightarrow> Document list" where
  "filterDocuments documents searchQuery selectedTags =
     (let filtered = documents;
          filtered =
            (if searchQuery \<noteq> [] then
               filter (\<lambda>doc.
                 stringIncludes (toLowerCase (title doc)) (toLowerCase searchQuery) \<or>
                 stringIncludes (toLowerCase (content doc)) (toLowerCase searchQuery) \<or>
                 (case summary doc of
                    None \<Rightarrow> False
                  | Some sm \<Rightarrow> sm \<noteq> [] \<and> stringIncludes (toLowerCase sm) (toLowerCase searchQuery)))
               filtered
             else filtered);
          filtered =
            (if length selectedTags > 0 then
               filter (\<lambda>doc. list_all (\<lambda>tag. tag \<in> set (tags doc)) selectedTags) filtered
             else filtered)
      in filtered)"

text \<open>
  The filter as the specification words it: a document is kept when the query is a
  case-insensitive substring of its title, its content or its summary (when it has one),
  and when it carries every selected tag.
\<close>

definition containsIgnoringCase :: "string \<Rightarrow> string \<Rightarrow> bool" where
  "containsIgnoringCase s q = stringIncludes (toLowerCase s) (toLowerCase q)"

definition textMatch :: "string \<Rightarrow> Document \<Rightarrow> bool" where
  "textMatch q doc =
     (containsIgnoringCase (title doc) q \<or> containsIgnoringCase (content doc) q \<or>
      (case summary doc of None \<Rightarrow> False | Some sm \<Rightarrow> containsIgnoringCase sm q))"

definition tagMatch :: "string list \<Rightarrow> Document \<Rightarrow> bool" where
  "tagMatch selected doc = (\<forall>tag \<in> set selected. tag \<in> set (tags doc))"

section \<open>The document editor\<close>

datatype api_error = ApiError string | NetworkError | BodyError
  \<comment> \<open>\<open>ApiError m\<close>: the \<open>Error\<close> thrown by \<open>apiRequest\<close> with message \<open>m\<close>;
      \<open>NetworkError\<close>: \<open>fetch\<close> rejected; \<open>BodyError\<close>: \<open>response.json()\<close> rejected\<close>

record DocData =
  dd_title :: string
  dd_content :: string
  dd_tags :: "string list"

datatype api_call = Create DocData | Update string DocData

text \<open>
  The editor's state. Its \<open>title\<close>, \<open>content\<close> and \<open>tags\<close> hooks are named
  \<open>edTitle\<close>, \<open>edContent\<close>, \<open>edTags\<close> here, apart from the fields of a document.
  \<open>calls\<close> logs the requests the page has issued through \<open>documentsAPI\<close>.
\<close>

record AddEditDoc = browser +
  edTitle :: string
  edContent :: string
  edTags :: "string list"
  newTag :: string
  isSubmitting :: bool
  isLoadingDoc :: bool
  isGeneratingTags :: bool
  calls :: "api_call list"

definition handleAddTag :: "'a AddEditDoc_scheme \<Rightarrow> 'a AddEditDoc_scheme" where
  "handleAddTag s =
     (let trimmedTag = toLowerCase (trim (newTag s))
      in if trimmedTag \<noteq> [] \<and> trimmedTag \<notin> set (edTags s)
         then s\<lparr>edTags := edTags s @ [trimmedTag], newTag := []\<rparr>
         else s)"

text \<open>
  \<open>handleSubmit\<close>: \<open>idParam\<close> is the route's \<open>id\<close> (\<open>isEditing = !!id\<close>, so an
  empty id creates), \<open>api\<close> answers the one request the handler may issue.
\<close>

definition handleSubmit ::
  "string option \<Rightarrow> (api_call \<Rightarrow> api_error + unit) \<Rightarrow> 'a AddEditDoc_scheme \<Rightarrow> 'a AddEditDoc_scheme" where
  "handleSubmit idParam api s =
     (if trim (edTitle s) = [] \<or> trim (edContent s) = [] then
        s\<lparr>toasts := toasts s @
             [Toast ''Validation Error'' ''Title and content are required'' Destructive]\<rparr>
      else
        let isEditing = truthyString idParam;
            docData = \<lparr>dd_title = trim (edTitle s), dd_content = trim (edContent s),
                       dd_tags = edTags s\<rparr>;
            call = (if isEditing then Update (the idParam) docData else Create docData);
            s1 = s\<lparr>isSubmitting := True, calls := calls s @ [call]\<rparr>;
            s2 = (case api call of
                    Inr _ \<Rightarrow>
                      s1\<lparr>toasts := toasts s1 @
                            [Toast ''Success''
                               (if isEditing then ''Document updated successfully!''
                                else ''Document created successfully!'') Default],
                          navigations := navigations s1 @ [''/dashboard'']\<rparr>
                  | Inl _ \<Rightarrow>
                      s1\<lparr>toasts := toasts s1 @
                            [Toast ''Error''
                               (''Failed to '' @ (if isEditing then ''update'' else ''create'')
                                  @ '' document'') Destructive]\<rparr>)
        in s2\<lparr>isSubmitting := False\<rparr>)"

section \<open>The request wrapper\<close>

text \<open>
  \<open>RequestInit\<close> as the code uses it: each property may be absent. Headers are an
  object, read here as a map from header name to value; object spread is map override
  (\<open>++\<close>), the later object winning.
\<close>

record RequestInit =
  reqMethod :: "string option"  \<comment> \<open>\<open>method\<close>\<close>
  body :: "string option"
  headers :: "(string \<rightharpoonup> string) option"

text \<open>
  What \<open>fetch\<close> gives back: it rejects, or it resolves to a response with its \<open>ok\<close>
  flag, its \<open>statusText\<close> and its body, \<open>None\<close> when \<open>response.json()\<close> rejects.
\<close>

datatype 'b fetched = Rejected | Resolved bool string "'b option"

definition API_BASE_URL :: "string option \<Rightarrow> string" where
  "API_BASE_URL viteApiUrl = (if truthyString viteApiUrl then the viteApiUrl else ''http://localhost:5000'')"

definition getAuthToken :: "(string \<rightharpoonup> string) \<Rightarrow> string option" where
  "getAuthToken storage = storage ''token''"

definition mergedHeaders :: "string option \<Rightarrow> RequestInit \<Rightarrow> (string \<rightharpoonup> string)" where
  "mergedHeaders token options =
     [''Content-Type'' \<mapsto> ''application/json'']
       ++ (if truthyString token then [''Authorization'' \<mapsto> ''Bearer '' @ the token] else Map.empty)
       ++ (case headers options of None \<Rightarrow> Map.empty | Some h \<Rightarrow> h)"

text \<open>
  \<open>config = { headers: {...}, ...options }\<close>: the spread of \<open>options\<close> comes after the
  \<open>headers\<close> property, so a \<open>headers\<close> property of \<open>options\<close> replaces the merged one.
\<close>

definition requestConfig :: "string option \<Rightarrow> RequestInit \<Rightarrow> RequestInit" where
  "requestConfig token options =
     \<lparr>reqMethod = reqMethod options,
      body = body options,
      headers = (case headers options of
                   None \<Rightarrow> Some (mergedHeaders token options)
                 | Some h \<Rightarrow> Some h)\<rparr>"

text \<open>
  \<open>apiRequest\<close> returns the call it made to \<open>fetch\<close> (url and config) together with
  its outcome: \<open>Inr\<close> the parsed body, \<open>Inl\<close> the error it fails with.
\<close>

definition apiRequest ::
  "string option \<Rightarrow> (string \<Rightarrow> RequestInit \<Rightarrow> 'b fetched) \<Rightarrow> (string \<rightharpoonup> string) \<Rightarrow>
     string \<Rightarrow> RequestInit \<Rightarrow> (string \<times> RequestInit) \<times> (api_error + 'b)" where
  "apiRequest viteApiUrl fetch storage endpoint options =
     (let token = getAuthToken storage;
          config = requestConfig token options;
          url = API_BASE_URL viteApiUrl @ endpoint
      in ((url, config),
          (case fetch url config of
             Rejected \<Rightarrow> Inl NetworkError
           | Resolved ok statusText json \<Rightarrow>
               if \<not> ok then Inl (ApiError (''API Error: '' @ statusText))
               else (case json of None \<Rightarrow> Inl BodyError | Some v \<Rightarrow> Inr v))))"

section \<open>The session: AuthProvider\<close>

text \<open>
  The in-memory \<open>user\<close> holds a value (\<open>JNull\<close> is \<open>null\<close>): bootstrap stores whatever
  the persisted text parses to, \<open>login\<close> whatever the response body has under \<open>user\<close>.
\<close>

record AuthProvider = browser +
  user :: json
  loading :: bool

definition isAuthenticated :: "'a AuthProvider_scheme \<Rightarrow> bool" where
  "isAuthenticated s = truthy (user s)"

text \<open>\<open>a || d\<close> on a string that may be absent.\<close>

definition orElse :: "string option \<Rightarrow> string \<Rightarrow> string" where
  "orElse a d = (if truthyString a then the a else d)"

text \<open>
  The bootstrap effect. \<open>parse\<close> is the platform's \<open>JSON.parse\<close>: \<open>None\<close> when it
  throws.
\<close>

definition bootstrap :: "(string \<Rightarrow> json option) \<Rightarrow> 'a AuthProvider_scheme \<Rightarrow> 'a AuthProvider_scheme" where
  "bootstrap parse s =
     (let token = localStorage s ''token'';
          s1 = (if truthyString token then
                  (case parse (orElse (localStorage s ''user'') ''{}'') of
                     Some userData \<Rightarrow> s\<lparr>user := userData\<rparr>
                   | None \<Rightarrow> s\<lparr>localStorage := (localStorage s)(''token'' := None, ''user'' := None)\<rparr>)
                else s)
      in s1\<lparr>loading := False\<rparr>)"

text \<open>
  What \<open>localStorage.setItem\<close> stores for a value: its conversion to a string. The
  conversion is written out for strings, \<open>undefined\<close>, \<open>null\<close> and booleans; for
  numbers, arrays and objects it is the platform's, \<open>coerce\<close>, which answers \<open>None\<close> when
  the conversion throws. Writes to local storage are taken to succeed.
\<close>

definition storedString :: "(json \<Rightarrow> string option) \<Rightarrow> json \<Rightarrow> string option" where
  "storedString coerce v =
     (case v of
        JStr s \<Rightarrow> Some s
      | JUndefined \<Rightarrow> Some ''undefined''
      | JNull \<Rightarrow> Some ''null''
      | JBool b \<Rightarrow> Some (if b then ''true'' else ''false'')
      | _ \<Rightarrow> coerce v)"

text \<open>
  What is stored for \<open>JSON.stringify(v)\<close>: \<open>stringify\<close> is the platform's function on
  the values it serializes; for \<open>undefined\<close> it returns \<open>undefined\<close>, stored as the text
  \<open>undefined\<close>.
\<close>

definition storedJson :: "(json \<Rightarrow> string) \<Rightarrow> json \<Rightarrow> string" where
  "storedJson stringify v = (case v of JUndefined \<Rightarrow> ''undefined'' | _ \<Rightarrow> stringify v)"

definition networkErrorToast :: "string \<Rightarrow> toast" where
  "networkErrorToast t = Toast t ''Network error. Please try again.'' Destructive"

definition messageToast :: "string \<Rightarrow> json \<Rightarrow> string \<Rightarrow> toast" where
  \<comment> \<open>\<open>description: error.message || fallback\<close>\<close>
  "messageToast t message fallback =
     (if truthy message then
        (case message of JStr m \<Rightarrow> Toast t m Destructive | _ \<Rightarrow> ToastValue t message Destructive)
      else Toast t fallback Destructive)"

text \<open>
  \<open>login\<close>: \<open>fetchLogin\<close> is the POST to \<open>/api/auth/login\<close> with the credentials; it
  rejects, or resolves to a response with its \<open>ok\<close> flag, its status text and its body,
  \<open>None\<close> when \<open>response.json()\<close> rejects. The body is whatever value the backend sent.
  Every throw inside the \<open>try\<close> lands in the \<open>catch\<close>, which toasts a network error
  and returns false. The result is the returned boolean and the state after the call.
\<close>

definition login ::
  "(string \<Rightarrow> string \<Rightarrow> json fetched) \<Rightarrow> (json \<Rightarrow> string) \<Rightarrow> (json \<Rightarrow> string option) \<Rightarrow>
     string \<Rightarrow> string \<Rightarrow> 'a AuthProvider_scheme \<Rightarrow> bool \<times> 'a AuthProvider_scheme" where
  "login fetchLogin stringify coerce em password s =
     (let caught = (False, s\<lparr>toasts := toasts s @ [networkErrorToast ''Login Failed'']\<rparr>)
      in case fetchLogin em password of
           Rejected \<Rightarrow> caught
         | Resolved ok statusText payload \<Rightarrow>
             if ok then
               (case payload of
                  None \<Rightarrow> caught
                | Some data \<Rightarrow>
                    (case getProp data ''token'' of
                       None \<Rightarrow> caught
                     | Some tokenValue \<Rightarrow>
                         (case storedString coerce tokenValue of
                            None \<Rightarrow> caught
                          | Some tokenText \<Rightarrow>
                              let userValue = (case getProp data ''user'' of
                                                 None \<Rightarrow> JUndefined | Some u \<Rightarrow> u)
                              in (True,
                                  s\<lparr>localStorage := (localStorage s)
                                       (''token'' \<mapsto> tokenText,
                                        ''user'' \<mapsto> storedJson stringify userValue),
                                    user := userValue,
                                    toasts := toasts s @
                                      [Toast ''Success'' ''Logged in successfully!'' Default]\<rparr>))))
             else
               (case payload of
                  None \<Rightarrow> caught
                | Some error \<Rightarrow>
                    (case getProp error ''message'' of
                       None \<Rightarrow> caught
                     | Some message \<Rightarrow>
                         (False,
                          s\<lparr>toasts := toasts s @
                               [messageToast ''Login Failed'' message ''Invalid credentials'']\<rparr>))))"

text \<open>\<open>register\<close> never reads the body of an ok response.\<close>

definition register ::
  "(string \<Rightarrow> string \<Rightarrow> json fetched) \<Rightarrow>
     string \<Rightarrow> string \<Rightarrow> 'a AuthProvider_scheme \<Rightarrow> bool \<times> 'a AuthProvider_scheme" where
  "register fetchRegister em password s =
     (let caught = (False, s\<lparr>toasts := toasts s @ [networkErrorToast ''Registration Failed'']\<rparr>)
      in case fetchRegister em password of
           Rejected \<Rightarrow> caught
         | Resolved ok statusText payload \<Rightarrow>
             if ok then
               (True,
                s\<lparr>toasts := toasts s @
                     [Toast ''Success'' ''Account created successfully! Please log in.'' Default]\<rparr>)
             else
               (case payload of
                  None \<Rightarrow> caught
                | Some error \<Rightarrow>
                    (case getProp error ''message'' of
                       None \<Rightarrow> caught
                     | Some message \<Rightarrow>
                         (False,
                          s\<lparr>toasts := toasts s @
                               [messageToast ''Registration Failed'' message
                                  ''Unable to create account'']\<rparr>))))"

definition logout :: "'a AuthProvider_scheme \<Rightarrow> 'a AuthProvider_scheme" where
  "logout s =
     s\<lparr>localStorage := (localStorage s)(''token'' := None, ''user'' := None),
       user := JNull,
       toasts := toasts s @ [Toast ''Logged out'' ''See you next time!'' Default]\<rparr>"

text \<open>
  The three conditions the session invariant relates. A token is present when the code's
  own test of it succeeds; a user is present when it is neither \<open>null\<close> nor \<open>undefined\<close>.
\<close>

definition userPresent :: "'a AuthProvider_scheme \<Rightarrow> bool" where
  "userPresent s = (user s \<noteq> JNull \<and> user s \<noteq> JUndefined)"

definition tokenPresent :: "'a AuthProvider_scheme \<Rightarrow> bool" where
  "tokenPresent s = truthyString (localStorage s ''token'')"

definition consistent :: "'a AuthProvider_scheme \<Rightarrow> bool" where
  "consistent s =
     ((userPresent s \<longleftrightarrow> tokenPresent s) \<and> (tokenPresent s \<longleftrightarrow> isAuthenticated s))"

text \<open>
  \<open>JSON.parse\<close> on the texts \<open>null\<close> and \<open>{}\<close>, for use at these two texts and at
  texts that are not JSON; it answers \<open>None\<close> on every other text, which \<open>JSON.parse\<close>
  does only when the text is not JSON.
\<close>

definition parseLiteral :: "string \<Rightarrow> json option" where
  "parseLiteral text =
     (if text = ''null'' then Some JNull
      else if text = ''{}'' then Some (JObj [])
      else None)"

section \<open>The question and answer page\<close>

datatype message_type = Question | Answer

text \<open>
  A transcript entry, \<open>QAMessage\<close>; its fields \<open>id\<close>, \<open>type\<close>, \<open>content\<close>,
  \<open>timestamp\<close>, \<open>sources\<close> carry the prefix \<open>msg\<close> here. A timestamp is the clock's
  reading in milliseconds; \<open>msgSources = None\<close> is an entry without \<open>sources\<close>.
\<close>

record QAMessage =
  msgId :: string
  msgType :: message_type
  msgContent :: string
  msgTimestamp :: nat
  msgSources :: "string list option"


record QA = browser +
  messages :: "QAMessage list"
  currentQuestion :: string
  isAsking :: bool

text \<open>
  \<open>handleAskQuestion\<close> runs in two parts. \<open>askStart\<close> is the part before the
  \<open>await\<close>: the guard, the question entry, the busy flag; it returns the question it
  sends, or \<open>None\<close> when the guard returns early. \<open>askFinish\<close> is the part after the
  request has settled. \<open>dateNow\<close> is the reading of \<open>Date.now()\<close>, \<open>newDate\<close> that of
  \<open>new Date()\<close>.
\<close>

definition askStart :: "nat \<Rightarrow> nat \<Rightarrow> 'a QA_scheme \<Rightarrow> 'a QA_scheme \<times> string option" where
  "askStart dateNow newDate s =
     (if trim (currentQuestion s) = [] \<or> isAsking s then (s, None)
      else
        let question = trim (currentQuestion s);
            questionMessage =
              \<lparr>msgId = toString dateNow, msgType = Question, msgContent = question,
               msgTimestamp = newDate, msgSources = None\<rparr>
        in (s\<lparr>currentQuestion := [], isAsking := True,
              messages := messages s @ [questionMessage]\<rparr>,
            Some question))"



section \<open>The search page\<close>

datatype search_mode = Regular | Semantic


record 'd Search = browser +
  searchQuery :: string
  searchResults :: "'d list"
  isSearching :: bool
  searchMode :: search_mode
  recentSearches :: "string list"
  hasSearched :: bool



definition updatedRecent :: "string \<Rightarrow> string list \<Rightarrow> string list" where
  \<comment> \<open>\<open>[searchQuery, ...recentSearches.filter(s => s !== searchQuery)].slice(0, 5)\<close>\<close>
  "updatedRecent q recent = take 5 (q # filter (\<lambda>s. s \<noteq> q) recent)"



section \<open>Proofs: strings\<close>

lemma startsWith_iff: "startsWith s q \<longleftrightarrow> (\<exists>suf. s = q @ suf)"
  by (induction s q rule: startsWith.induct) auto

lemma includes_Nil [simp]: "stringIncludes s []"
  by (induction s) auto

lemma includes_iff: "stringIncludes s q \<longleftrightarrow> (\<exists>pre suf. s = pre @ q @ suf)"
proof (induction s)
  case Nil
  then show ?case by auto
next
  case (Cons c cs)
  show ?case
  proof
    assume "stringIncludes (c # cs) q"
    then consider "startsWith (c # cs) q" | "stringIncludes cs q" by auto
    then show "\<exists>pre suf. c # cs = pre @ q @ suf"
    proof cases
      case 1
      then obtain suf where "c # cs = q @ suf" by (auto simp: startsWith_iff)
      then have "c # cs = [] @ q @ suf" by simp
      then show ?thesis by blast
    next
      case 2
      then obtain pre suf where "cs = pre @ q @ suf" using Cons.IH by blast
      then have "c # cs = (c # pre) @ q @ suf" by simp
      then show ?thesis by blast
    qed
  next
    assume "\<exists>pre suf. c # cs = pre @ q @ suf"
    then obtain pre suf where eq: "c # cs = pre @ q @ suf" by blast
    show "stringIncludes (c # cs) q"
    proof (cases pre)
      case Nil
      with eq have "startsWith (c # cs) q" by (auto simp: startsWith_iff)
      then show ?thesis by simp
    next
      case (Cons p ps)
      with eq have "cs = ps @ q @ suf" by simp
      then have "stringIncludes cs q" using Cons.IH by blast
      then show ?thesis by simp
    qed
  qed
qed

lemma toLowerCase_Nil_iff [simp]: "toLowerCase s = [] \<longleftrightarrow> s = []"
  by (simp add: toLowerCase_def)

lemma toLowerCase_Nil [simp]: "toLowerCase [] = []"
  by (simp add: toLowerCase_def)

lemma stringIncludes_empty_text [simp]: "stringIncludes [] q \<longleftrightarrow> q = []"
  by simp

lemma trim_no_break_space: "trim [CHR 0xA0, CHR 0x20, CHR 0xA0] = []"
  by (simp add: trim_def isWhiteSpace_def)

lemma toLowerCase_latin1:
  "toLowerCase (''CAF'' @ [CHR 0xC9] @ '' Menu'') = ''caf'' @ [CHR 0xE9] @ '' menu''"
  by (simp add: toLowerCase_def lowerChar_def upperCaseLetters_def lowerCaseLetters_def)

lemma containsIgnoringCase_iff:
  "containsIgnoringCase s q \<longleftrightarrow>
     (\<exists>pre mid suf. s = pre @ mid @ suf \<and> toLowerCase mid = toLowerCase q)"
proof
  assume "containsIgnoringCase s q"
  then obtain a c where "map lowerChar s = a @ map lowerChar q @ c"
    unfolding containsIgnoringCase_def includes_iff toLowerCase_def by blast
  then obtain pre rest where s: "s = pre @ rest" and rest: "map lowerChar rest = map lowerChar q @ c"
    by (metis map_eq_append_conv)
  from rest obtain mid suf where "rest = mid @ suf" and "map lowerChar mid = map lowerChar q"
    by (metis map_eq_append_conv)
  with s show "\<exists>pre mid suf. s = pre @ mid @ suf \<and> toLowerCase mid = toLowerCase q"
    unfolding toLowerCase_def by blast
next
  assume "\<exists>pre mid suf. s = pre @ mid @ suf \<and> toLowerCase mid = toLowerCase q"
  then obtain pre mid suf where "s = pre @ mid @ suf" and "toLowerCase mid = toLowerCase q"
    by blast
  then have "toLowerCase s = toLowerCase pre @ toLowerCase q @ toLowerCase suf"
    by (simp add: toLowerCase_def)
  then show "containsIgnoringCase s q"
    unfolding containsIgnoringCase_def includes_iff by blast
qed

section \<open>Proofs: the document editor\<close>

text \<open>
  Claim C9. \<open>handleAddTag\<close> appends the trimmed, lower-cased input exactly when it is
  not empty and not yet in the tag list; when that value is already in the list the
  whole editor state is left as it was; and entering the same input a second time after
  an add changes the tag list no further.
\<close>

theorem handleAddTag_adds_once:
  "edTags (handleAddTag s) =
     (if toLowerCase (trim (newTag s)) \<noteq> [] \<and> toLowerCase (trim (newTag s)) \<notin> set (edTags s)
      then edTags s @ [toLowerCase (trim (newTag s))] else edTags s)
   \<and> (toLowerCase (trim (newTag s)) \<in> set (edTags s) \<longrightarrow> handleAddTag s = s)
   \<and> edTags (handleAddTag ((handleAddTag s)\<lparr>newTag := newTag s\<rparr>)) = edTags (handleAddTag s)"
  by (simp add: handleAddTag_def Let_def)

theorem handleAddTag_adds_once_witness:
  "toLowerCase (trim (CHR 0xA0 # CHR 0xC9 # ''COLE '')) \<in> set [CHR 0xE9 # ''cole''] \<and>
   handleAddTag
     \<lparr>localStorage = Map.empty, toasts = [], navigations = [],
      edTitle = ''Guide'', edContent = ''text'', edTags = [CHR 0xE9 # ''cole''],
      newTag = CHR 0xA0 # CHR 0xC9 # ''COLE '',
      isSubmitting = False, isLoadingDoc = False, isGeneratingTags = False, calls = []\<rparr>
   = \<lparr>localStorage = Map.empty, toasts = [], navigations = [],
      edTitle = ''Guide'', edContent = ''text'', edTags = [CHR 0xE9 # ''cole''],
      newTag = CHR 0xA0 # CHR 0xC9 # ''COLE '',
      isSubmitting = False, isLoadingDoc = False, isGeneratingTags = False, calls = []\<rparr>"
  using handleAddTag_adds_once [of
     "\<lparr>localStorage = Map.empty, toasts = [], navigations = [],
      edTitle = ''Guide'', edContent = ''text'', edTags = [CHR 0xE9 # ''cole''],
      newTag = CHR 0xA0 # CHR 0xC9 # ''COLE '',
      isSubmitting = False, isLoadingDoc = False, isGeneratingTags = False, calls = []\<rparr>"]
  by (simp add: trim_def isWhiteSpace_def toLowerCase_def lowerChar_def upperCaseLetters_def lowerCaseLetters_def)

text \<open>
  Claim C8. When the trimmed title or the trimmed content is empty, \<open>handleSubmit\<close>
  reports the validation error in a toast and does nothing else: no request is issued
  (the log of calls is unchanged and the result does not depend on what the backend would
  answer), the page does not navigate, and title, content and tags keep their values.
\<close>

theorem handleSubmit_validation:
  assumes "trim (edTitle s) = [] \<or> trim (edContent s) = []"
  shows "calls (handleSubmit idParam api s) = calls s
       \<and> edTitle (handleSubmit idParam api s) = edTitle s
       \<and> edContent (handleSubmit idParam api s) = edContent s
       \<and> edTags (handleSubmit idParam api s) = edTags s
       \<and> navigations (handleSubmit idParam api s) = navigations s
       \<and> toasts (handleSubmit idParam api s) =
           toasts s @ [Toast ''Validation Error'' ''Title and content are required'' Destructive]
       \<and> handleSubmit idParam api s = handleSubmit idParam api' s"
  using assms by (simp add: handleSubmit_def)

theorem handleSubmit_validation_witness:
  "(trim [CHR 0xA0, CHR 0x20] = [] \<or> trim ''text'' = []) \<and>
   calls (handleSubmit None (\<lambda>c. Inr ())
     \<lparr>localStorage = Map.empty, toasts = [], navigations = [],
      edTitle = [CHR 0xA0, CHR 0x20], edContent = ''text'', edTags = [''auth''], newTag = [],
      isSubmitting = False, isLoadingDoc = False, isGeneratingTags = False, calls = []\<rparr>) = [] \<and>
   edTags (handleSubmit None (\<lambda>c. Inr ())
     \<lparr>localStorage = Map.empty, toasts = [], navigations = [],
      edTitle = [CHR 0xA0, CHR 0x20], edContent = ''text'', edTags = [''auth''], newTag = [],
      isSubmitting = False, isLoadingDoc = False, isGeneratingTags = False, calls = []\<rparr>) = [''auth'']"
proof -
  have h: "trim [CHR 0xA0, CHR 0x20] = [] \<or> trim ''text'' = []"
    by (simp add: trim_def isWhiteSpace_def)
  show ?thesis
    using h handleSubmit_validation [of
      "\<lparr>localStorage = Map.empty, toasts = [], navigations = [],
        edTitle = [CHR 0xA0, CHR 0x20], edContent = ''text'', edTags = [''auth''], newTag = [],
        isSubmitting = False, isLoadingDoc = False, isGeneratingTags = False, calls = []\<rparr>"
      None "\<lambda>c. Inr ()"]
    by simp
qed

section \<open>Proofs: the dashboard filter\<close>

text \<open>
  Claim C4. \<open>filterDocuments\<close> keeps, in the order of the cache, exactly the documents
  whose title, content or summary (when present) contains the query as a case-insensitive
  substring and whose tags include every selected tag; with an empty query and no selected
  tag it returns the whole cache. (\<open>containsIgnoringCase_iff\<close> says what the text match
  means.)
\<close>

theorem filterDocuments_spec:
  "filterDocuments docs q sel = filter (\<lambda>doc. textMatch q doc \<and> tagMatch sel doc) docs
   \<and> filterDocuments docs [] [] = docs"
proof -
  have tm: "(q \<noteq> [] \<longrightarrow>
      (stringIncludes (toLowerCase (title d)) (toLowerCase q) \<or>
       stringIncludes (toLowerCase (content d)) (toLowerCase q) \<or>
       (case summary d of None \<Rightarrow> False
        | Some sm \<Rightarrow> sm \<noteq> [] \<and> stringIncludes (toLowerCase sm) (toLowerCase q))))
     = textMatch q d" for d
    by (cases "q = []"; cases "summary d")
       (auto simp: textMatch_def containsIgnoringCase_def)
  have tag: "list_all (\<lambda>tag. tag \<in> set (tags d)) sel = tagMatch sel d" for d
    by (simp add: tagMatch_def list_all_iff)
  have tagNil: "tagMatch [] d" for d by (simp add: tagMatch_def)
  have textNil: "textMatch [] d" for d by (simp add: textMatch_def containsIgnoringCase_def)
  show ?thesis
    by (cases "q = []"; cases "sel = []")
       (simp_all add: filterDocuments_def Let_def tag tagNil textNil tm [symmetric])
qed


theorem filterDocuments_spec_witness:
  "filterDocuments
     [\<lparr>doc_id = ''1'', title = ''Auth Guide'', content = ''how to sign in'',
       tags = [''auth'', ''security''], summary = None, createdBy = (''a@b.c'', ''user''),
       createdAt = ''2024'', updatedAt = ''2024''\<rparr>,
      \<lparr>doc_id = ''2'', title = ''CAF'' @ [CHR 0xC9] @ '' MENU'', content = ''drinks'',
       tags = [''food''], summary = Some ''prices'', createdBy = (''a@b.c'', ''user''),
       createdAt = ''2024'', updatedAt = ''2024''\<rparr>]
     ''auth'' []
   = [\<lparr>doc_id = ''1'', title = ''Auth Guide'', content = ''how to sign in'',
       tags = [''auth'', ''security''], summary = None, createdBy = (''a@b.c'', ''user''),
       createdAt = ''2024'', updatedAt = ''2024''\<rparr>]
   \<and> filterDocuments
     [\<lparr>doc_id = ''1'', title = ''Auth Guide'', content = ''how to sign in'',
       tags = [''auth'', ''security''], summary = None, createdBy = (''a@b.c'', ''user''),
       createdAt = ''2024'', updatedAt = ''2024''\<rparr>,
      \<lparr>doc_id = ''2'', title = ''CAF'' @ [CHR 0xC9] @ '' MENU'', content = ''drinks'',
       tags = [''food''], summary = Some ''prices'', createdBy = (''a@b.c'', ''user''),
       createdAt = ''2024'', updatedAt = ''2024''\<rparr>]
     (''caf'' @ [CHR 0xE9]) [''food'']
   = [\<lparr>doc_id = ''2'', title = ''CAF'' @ [CHR 0xC9] @ '' MENU'', content = ''drinks'',
       tags = [''food''], summary = Some ''prices'', createdBy = (''a@b.c'', ''user''),
       createdAt = ''2024'', updatedAt = ''2024''\<rparr>]"
  using filterDocuments_spec [of
     "[\<lparr>doc_id = ''1'', title = ''Auth Guide'', content = ''how to sign in'',
       tags = [''auth'', ''security''], summary = None, createdBy = (''a@b.c'', ''user''),
       createdAt = ''2024'', updatedAt = ''2024''\<rparr>,
      \<lparr>doc_id = ''2'', title = ''CAF'' @ [CHR 0xC9] @ '' MENU'', content = ''drinks'',
       tags = [''food''], summary = Some ''prices'', createdBy = (''a@b.c'', ''user''),
       createdAt = ''2024'', updatedAt = ''2024''\<rparr>]"
     "''auth''" "[]"]
    filterDocuments_spec [of
     "[\<lparr>doc_id = ''1'', title = ''Auth Guide'', content = ''how to sign in'',
       tags = [''auth'', ''security''], summary = None, createdBy = (''a@b.c'', ''user''),
       createdAt = ''2024'', updatedAt = ''2024''\<rparr>,
      \<lparr>doc_id = ''2'', title = ''CAF'' @ [CHR 0xC9] @ '' MENU'', content = ''drinks'',
       tags = [''food''], summary = Some ''prices'', createdBy = (''a@b.c'', ''user''),
       createdAt = ''2024'', updatedAt = ''2024''\<rparr>]"
     "''caf'' @ [CHR 0xE9]" "[''food'']"]
  by (simp add: textMatch_def containsIgnoringCase_def tagMatch_def toLowerCase_def lowerChar_def
      upperCaseLetters_def lowerCaseLetters_def)

section \<open>Proofs: the question and answer page\<close>



lemma askStart_accepted:
  "trim (currentQuestion s) \<noteq> [] \<Longrightarrow> \<not> isAsking s \<Longrightarrow>
     snd (askStart d n s) = Some (trim (currentQuestion s)) \<and>
     isAsking (fst (askStart d n s)) \<and>
     messages (fst (askStart d n s)) =
       messages s @ [\<lparr>msgId = toString d, msgType = Question,
                       msgContent = trim (currentQuestion s), msgTimestamp = n,
                       msgSources = None\<rparr>]"
  by (simp add: askStart_def Let_def)










section \<open>Proofs: the search page\<close>

lemma updatedRecent_Cons: "updatedRecent q recent = q # take 4 (filter (\<lambda>s. s \<noteq> q) recent)"
  by (simp add: updatedRecent_def take_Cons')


lemma updatedRecent_once: "filter (\<lambda>s. s = q) (updatedRecent q recent) = [q]"
proof -
  have "set (take 4 (filter (\<lambda>s. s \<noteq> q) recent)) \<subseteq> {s. s \<noteq> q}"
    using set_take_subset [of 4 "filter (\<lambda>s. s \<noteq> q) recent"] by auto
  then have "filter (\<lambda>s. s = q) (take 4 (filter (\<lambda>s. s \<noteq> q) recent)) = []"
    by (auto simp: filter_empty_conv)
  then show ?thesis by (simp add: updatedRecent_Cons)
qed







section \<open>Proofs: the request wrapper\<close>

lemma mergedHeaders_plain:
  "headers options = None \<Longrightarrow>
     mergedHeaders token options ''Content-Type'' = Some ''application/json'' \<and>
     mergedHeaders token options ''Authorization'' =
       (if truthyString token then Some (''Bearer '' @ the token) else None)"
  by (simp add: mergedHeaders_def map_add_def)

text \<open>
  Claim C7, as the code has it. For every path, every stored-token state and every
  \<open>options\<close> without headers of their own, the request that \<open>apiRequest\<close> hands to
  \<open>fetch\<close> goes to the base URL followed by the path, carries
  \<open>Content-Type: application/json\<close>, and carries \<open>Authorization: Bearer <token>\<close>
  exactly when a non-empty token is stored. For every \<open>options\<close>, a response that is not
  ok makes the wrapper fail with the error \<open>API Error: <statusText>\<close>, and a value is
  returned only from an ok response whose body parsed.
\<close>

theorem apiRequest_headers_and_errors:
  "(headers options = None \<longrightarrow>
      (\<exists>h. headers (snd (fst (apiRequest viteApiUrl fetch storage endpoint options))) = Some h
         \<and> h ''Content-Type'' = Some ''application/json''
         \<and> h ''Authorization'' =
             (if truthyString (storage ''token'') then Some (''Bearer '' @ the (storage ''token''))
              else None)))
   \<and> fst (fst (apiRequest viteApiUrl fetch storage endpoint options))
        = API_BASE_URL viteApiUrl @ endpoint
   \<and> (\<forall>statusText json.
        fetch (fst (fst (apiRequest viteApiUrl fetch storage endpoint options)))
              (snd (fst (apiRequest viteApiUrl fetch storage endpoint options)))
          = Resolved False statusText json \<longrightarrow>
        snd (apiRequest viteApiUrl fetch storage endpoint options)
          = Inl (ApiError (''API Error: '' @ statusText)))
   \<and> (\<forall>v. snd (apiRequest viteApiUrl fetch storage endpoint options) = Inr v \<longrightarrow>
        (\<exists>statusText.
           fetch (fst (fst (apiRequest viteApiUrl fetch storage endpoint options)))
                 (snd (fst (apiRequest viteApiUrl fetch storage endpoint options)))
             = Resolved True statusText (Some v)))"
proof (intro conjI impI allI)
  assume "headers options = None"
  then show "\<exists>h. headers (snd (fst (apiRequest viteApiUrl fetch storage endpoint options))) = Some h
         \<and> h ''Content-Type'' = Some ''application/json''
         \<and> h ''Authorization'' =
             (if truthyString (storage ''token'') then Some (''Bearer '' @ the (storage ''token''))
              else None)"
    using mergedHeaders_plain [of options "storage ''token''"]
    by (simp add: apiRequest_def requestConfig_def getAuthToken_def Let_def)
next
  show "fst (fst (apiRequest viteApiUrl fetch storage endpoint options))
        = API_BASE_URL viteApiUrl @ endpoint"
    by (simp add: apiRequest_def Let_def)
next
  fix statusText json
  assume "fetch (fst (fst (apiRequest viteApiUrl fetch storage endpoint options)))
              (snd (fst (apiRequest viteApiUrl fetch storage endpoint options)))
          = Resolved False statusText json"
  then show "snd (apiRequest viteApiUrl fetch storage endpoint options)
          = Inl (ApiError (''API Error: '' @ statusText))"
    by (simp add: apiRequest_def Let_def)
next
  fix v
  assume "snd (apiRequest viteApiUrl fetch storage endpoint options) = Inr v"
  then show "\<exists>statusText.
           fetch (fst (fst (apiRequest viteApiUrl fetch storage endpoint options)))
                 (snd (fst (apiRequest viteApiUrl fetch storage endpoint options)))
             = Resolved True statusText (Some v)"
    by (auto simp: apiRequest_def Let_def split: fetched.splits if_splits option.splits)
qed

theorem apiRequest_headers_and_errors_witness:
  "(\<exists>h. headers (snd (fst (apiRequest None
            (\<lambda>url config. Resolved False ''Not Found'' (None :: unit option))
            [''token'' \<mapsto> ''t0k'']
            ''/api/documents'' \<lparr>reqMethod = None, body = None, headers = None\<rparr>))) = Some h
      \<and> h ''Content-Type'' = Some ''application/json''
      \<and> h ''Authorization'' = Some ''Bearer t0k'')
   \<and> snd (apiRequest None
            (\<lambda>url config. Resolved False ''Not Found'' (None :: unit option))
            [''token'' \<mapsto> ''t0k'']
            ''/api/documents'' \<lparr>reqMethod = None, body = None, headers = None\<rparr>)
       = Inl (ApiError ''API Error: Not Found'')"
  using apiRequest_headers_and_errors [of
      "\<lparr>reqMethod = None, body = None, headers = None\<rparr>" None
      "\<lambda>url config. Resolved False ''Not Found'' (None :: unit option)"
      "[''token'' \<mapsto> ''t0k'']" "''/api/documents''"]
  by (simp add: truthyString_def)

text \<open>
  The claim as stated speaks of every \<open>options\<close>. Headers given in \<open>options\<close> come
  last in the merge, so a caller's \<open>Content-Type\<close> is the one that is sent.
\<close>

theorem apiRequest_content_type_counterexample:
  "the (headers (snd (fst (apiRequest None
            (\<lambda>url config. Resolved True ''OK'' (Some ()))
            [''token'' \<mapsto> ''t0k'']
            ''/api/documents''
            \<lparr>reqMethod = None, body = None,
             headers = Some [''Content-Type'' \<mapsto> ''text/plain'']\<rparr>)))) ''Content-Type''
     = Some ''text/plain''"
  by (simp add: apiRequest_def requestConfig_def Let_def)


section \<open>Proofs: the session\<close>

lemma bootstrap_no_token:
  "\<not> truthyString (localStorage s ''token'') \<Longrightarrow> bootstrap parse s = s\<lparr>loading := False\<rparr>"
  by (simp add: bootstrap_def Let_def)

lemma bootstrap_parse_failure:
  "truthyString (localStorage s ''token'') \<Longrightarrow> parse (orElse (localStorage s ''user'') ''{}'') = None \<Longrightarrow>
     bootstrap parse s =
       s\<lparr>localStorage := (localStorage s)(''token'' := None, ''user'' := None), loading := False\<rparr>"
  by (simp add: bootstrap_def Let_def)

lemma bootstrap_parsed:
  "truthyString (localStorage s ''token'') \<Longrightarrow> parse (orElse (localStorage s ''user'') ''{}'') = Some v \<Longrightarrow>
     bootstrap parse s = s\<lparr>user := v, loading := False\<rparr>"
  by (simp add: bootstrap_def Let_def)

lemma truthy_present: "truthy v \<Longrightarrow> v \<noteq> JNull \<and> v \<noteq> JUndefined"
  by (cases v) simp_all

lemma getProp_both:
  "getProp data k = Some v \<Longrightarrow> \<exists>u. getProp data k' = Some u"
  by (cases data) simp_all

text \<open>
  Claim C2, as the code has it. Bootstrap starts with no user in memory. When the token
  key holds a non-empty string and the user key holds a non-empty string that fails to
  parse as JSON, both persisted keys are removed (no other key is touched) and the session
  ends unauthenticated, with the user absent. When the token key is missing or empty,
  local storage is left as it is, a persisted user key included, and the session ends
  unauthenticated. In both cases \<open>loading\<close> ends false.
\<close>

theorem bootstrap_clears_on_parse_failure:
  assumes "user s = JNull"
  shows "(truthyString (localStorage s ''token'') \<and> localStorage s ''user'' = Some userText
            \<and> userText \<noteq> [] \<and> parse userText = None \<longrightarrow>
          localStorage (bootstrap parse s) ''token'' = None
          \<and> localStorage (bootstrap parse s) ''user'' = None
          \<and> (\<forall>k. k \<noteq> ''token'' \<and> k \<noteq> ''user'' \<longrightarrow>
                localStorage (bootstrap parse s) k = localStorage s k)
          \<and> user (bootstrap parse s) = JNull
          \<and> \<not> isAuthenticated (bootstrap parse s)
          \<and> \<not> loading (bootstrap parse s))
       \<and> (\<not> truthyString (localStorage s ''token'') \<longrightarrow>
          localStorage (bootstrap parse s) = localStorage s
          \<and> user (bootstrap parse s) = JNull
          \<and> \<not> isAuthenticated (bootstrap parse s)
          \<and> \<not> loading (bootstrap parse s))"
proof (rule conjI)
  show "truthyString (localStorage s ''token'') \<and> localStorage s ''user'' = Some userText
            \<and> userText \<noteq> [] \<and> parse userText = None \<longrightarrow>
          localStorage (bootstrap parse s) ''token'' = None
          \<and> localStorage (bootstrap parse s) ''user'' = None
          \<and> (\<forall>k. k \<noteq> ''token'' \<and> k \<noteq> ''user'' \<longrightarrow>
                localStorage (bootstrap parse s) k = localStorage s k)
          \<and> user (bootstrap parse s) = JNull
          \<and> \<not> isAuthenticated (bootstrap parse s)
          \<and> \<not> loading (bootstrap parse s)"
  proof (rule impI)
    assume a: "truthyString (localStorage s ''token'') \<and> localStorage s ''user'' = Some userText
            \<and> userText \<noteq> [] \<and> parse userText = None"
    then have "orElse (localStorage s ''user'') ''{}'' = userText"
      by (simp add: orElse_def truthyString_def)
    with a have b: "bootstrap parse s =
         s\<lparr>localStorage := (localStorage s)(''token'' := None, ''user'' := None), loading := False\<rparr>"
      by (simp add: bootstrap_parse_failure)
    show "localStorage (bootstrap parse s) ''token'' = None
          \<and> localStorage (bootstrap parse s) ''user'' = None
          \<and> (\<forall>k. k \<noteq> ''token'' \<and> k \<noteq> ''user'' \<longrightarrow>
                localStorage (bootstrap parse s) k = localStorage s k)
          \<and> user (bootstrap parse s) = JNull
          \<and> \<not> isAuthenticated (bootstrap parse s)
          \<and> \<not> loading (bootstrap parse s)"
      using assms by (simp add: b isAuthenticated_def)
  qed
next
  show "\<not> truthyString (localStorage s ''token'') \<longrightarrow>
          localStorage (bootstrap parse s) = localStorage s
          \<and> user (bootstrap parse s) = JNull
          \<and> \<not> isAuthenticated (bootstrap parse s)
          \<and> \<not> loading (bootstrap parse s)"
    using assms by (simp add: bootstrap_no_token isAuthenticated_def)
qed

theorem bootstrap_clears_on_parse_failure_witness:
  "localStorage (bootstrap parseLiteral
      \<lparr>localStorage = [''token'' \<mapsto> ''t0k'', ''user'' \<mapsto> ''{bad''], toasts = [], navigations = [],
       user = JNull, loading = True\<rparr>) ''token'' = None
   \<and> localStorage (bootstrap parseLiteral
      \<lparr>localStorage = [''token'' \<mapsto> ''t0k'', ''user'' \<mapsto> ''{bad''], toasts = [], navigations = [],
       user = JNull, loading = True\<rparr>) ''user'' = None
   \<and> \<not> isAuthenticated (bootstrap parseLiteral
      \<lparr>localStorage = [''token'' \<mapsto> ''t0k'', ''user'' \<mapsto> ''{bad''], toasts = [], navigations = [],
       user = JNull, loading = True\<rparr>)"
  using bootstrap_clears_on_parse_failure [of
      "\<lparr>localStorage = [''token'' \<mapsto> ''t0k'', ''user'' \<mapsto> ''{bad''], toasts = [], navigations = [],
       user = JNull, loading = True\<rparr>" "''{bad''" parseLiteral]
  by (simp add: truthyString_def parseLiteral_def)

text \<open>
  The claim as stated has both keys removed whenever the token key or the user key is
  missing, or the user text fails to parse. With the token missing the effect skips the
  parse and removes nothing: a persisted user key stays. With the user key missing and a
  token present the effect parses the text \<open>{}\<close> in its place, which gives the empty
  object: the token stays and the session ends authenticated. The same happens when the
  user key holds the empty string, a text that does not parse.
\<close>

theorem bootstrap_keeps_keys_counterexample:
  "localStorage (bootstrap parseLiteral
      \<lparr>localStorage = [''user'' \<mapsto> ''{bad''], toasts = [], navigations = [],
       user = JNull, loading = True\<rparr>) ''user'' = Some ''{bad''
   \<and> localStorage (bootstrap parseLiteral
      \<lparr>localStorage = [''token'' \<mapsto> ''t0k''], toasts = [], navigations = [],
       user = JNull, loading = True\<rparr>) ''token'' = Some ''t0k''
   \<and> isAuthenticated (bootstrap parseLiteral
      \<lparr>localStorage = [''token'' \<mapsto> ''t0k''], toasts = [], navigations = [],
       user = JNull, loading = True\<rparr>)
   \<and> parseLiteral [] = None
   \<and> localStorage (bootstrap parseLiteral
      \<lparr>localStorage = [''token'' \<mapsto> ''t0k'', ''user'' \<mapsto> []], toasts = [], navigations = [],
       user = JNull, loading = True\<rparr>) ''token'' = Some ''t0k''
   \<and> isAuthenticated (bootstrap parseLiteral
      \<lparr>localStorage = [''token'' \<mapsto> ''t0k'', ''user'' \<mapsto> []], toasts = [], navigations = [],
       user = JNull, loading = True\<rparr>)"
  by (simp add: bootstrap_def Let_def truthyString_def orElse_def parseLiteral_def isAuthenticated_def)

lemma login_failure_untouched:
  "\<not> fst (login fetchLogin stringify coerce em password s) \<Longrightarrow>
     localStorage (snd (login fetchLogin stringify coerce em password s)) = localStorage s \<and>
     user (snd (login fetchLogin stringify coerce em password s)) = user s \<and>
     loading (snd (login fetchLogin stringify coerce em password s)) = loading s"
  by (auto simp: login_def Let_def split: fetched.splits option.splits if_splits)

lemma login_success:
  "fetchLogin em password = Resolved True statusText (Some data) \<Longrightarrow>
   getProp data ''token'' = Some tokenValue \<Longrightarrow>
   storedString coerce tokenValue = Some tokenText \<Longrightarrow>
   getProp data ''user'' = Some userValue \<Longrightarrow>
     login fetchLogin stringify coerce em password s =
       (True,
        s\<lparr>localStorage := (localStorage s)
             (''token'' \<mapsto> tokenText, ''user'' \<mapsto> storedJson stringify userValue),
          user := userValue,
          toasts := toasts s @ [Toast ''Success'' ''Logged in successfully!'' Default]\<rparr>)"
  by (simp add: login_def Let_def)

lemma login_true_iff:
  "fst (login fetchLogin stringify coerce em password s) \<longleftrightarrow>
     (\<exists>statusText data tokenValue tokenText.
        fetchLogin em password = Resolved True statusText (Some data) \<and>
        getProp data ''token'' = Some tokenValue \<and>
        storedString coerce tokenValue = Some tokenText)"
  by (auto simp: login_def Let_def split: fetched.splits option.splits if_splits)

lemma register_untouched:
  "localStorage (snd (register fetchRegister em password s)) = localStorage s \<and>
   user (snd (register fetchRegister em password s)) = user s"
  by (auto simp: register_def Let_def split: fetched.splits option.splits if_splits)

lemma consistent_cong:
  "localStorage t = localStorage s \<Longrightarrow> user t = user s \<Longrightarrow> consistent t = consistent s"
  by (simp add: consistent_def userPresent_def tokenPresent_def isAuthenticated_def)

text \<open>
  Claim C5, as the code has it. \<open>login\<close> returns true exactly when \<open>fetch\<close> resolves
  to an ok response whose body can be read, is not \<open>null\<close>, and has a token that
  converts to a string (a string, a boolean, \<open>null\<close> and a missing token always do). Then
  the token's string and the serialized user of the body are stored under \<open>token\<close> and
  \<open>user\<close>, the in-memory user is the body's user, and the session is authenticated
  exactly when that user is truthy. For a body \<open>{token, user}\<close> with a string token the
  stored token is that string and the stored user is \<open>JSON.stringify(user)\<close>. In every
  other case (the request rejected, a response that is not ok, a body that cannot be read
  or is \<open>null\<close>, a token that cannot be converted) \<open>login\<close> returns false and leaves local
  storage, the in-memory user and \<open>loading\<close> as they were. Every outcome of the request
  yields a boolean: the \<open>try\<close>/\<open>catch\<close> spans the whole body, so nothing is raised.
\<close>

theorem login_result:
  "(fst (login fetchLogin stringify coerce em password s)
      \<longleftrightarrow> (\<exists>statusText data tokenValue tokenText.
             fetchLogin em password = Resolved True statusText (Some data) \<and>
             getProp data ''token'' = Some tokenValue \<and>
             storedString coerce tokenValue = Some tokenText))
   \<and> (\<forall>statusText data tokenValue tokenText userValue.
        fetchLogin em password = Resolved True statusText (Some data) \<and>
        getProp data ''token'' = Some tokenValue \<and>
        storedString coerce tokenValue = Some tokenText \<and>
        getProp data ''user'' = Some userValue \<longrightarrow>
        localStorage (snd (login fetchLogin stringify coerce em password s))
          = (localStorage s)(''token'' \<mapsto> tokenText, ''user'' \<mapsto> storedJson stringify userValue)
        \<and> user (snd (login fetchLogin stringify coerce em password s)) = userValue
        \<and> (isAuthenticated (snd (login fetchLogin stringify coerce em password s))
             \<longleftrightarrow> truthy userValue))
   \<and> (\<forall>statusText kvs tok usr.
        fetchLogin em password = Resolved True statusText (Some (JObj kvs)) \<and>
        map_of kvs ''token'' = Some (JStr tok) \<and> map_of kvs ''user'' = Some usr \<and>
        usr \<noteq> JUndefined \<longrightarrow>
        fst (login fetchLogin stringify coerce em password s)
        \<and> localStorage (snd (login fetchLogin stringify coerce em password s)) ''token'' = Some tok
        \<and> localStorage (snd (login fetchLogin stringify coerce em password s)) ''user''
            = Some (stringify usr)
        \<and> user (snd (login fetchLogin stringify coerce em password s)) = usr)
   \<and> (\<not> fst (login fetchLogin stringify coerce em password s) \<longrightarrow>
        localStorage (snd (login fetchLogin stringify coerce em password s)) = localStorage s
        \<and> user (snd (login fetchLogin stringify coerce em password s)) = user s
        \<and> loading (snd (login fetchLogin stringify coerce em password s)) = loading s)"
proof (intro conjI)
  show "fst (login fetchLogin stringify coerce em password s)
      \<longleftrightarrow> (\<exists>statusText data tokenValue tokenText.
             fetchLogin em password = Resolved True statusText (Some data) \<and>
             getProp data ''token'' = Some tokenValue \<and>
             storedString coerce tokenValue = Some tokenText)"
    by (rule login_true_iff)
  show "\<forall>statusText data tokenValue tokenText userValue.
        fetchLogin em password = Resolved True statusText (Some data) \<and>
        getProp data ''token'' = Some tokenValue \<and>
        storedString coerce tokenValue = Some tokenText \<and>
        getProp data ''user'' = Some userValue \<longrightarrow>
        localStorage (snd (login fetchLogin stringify coerce em password s))
          = (localStorage s)(''token'' \<mapsto> tokenText, ''user'' \<mapsto> storedJson stringify userValue)
        \<and> user (snd (login fetchLogin stringify coerce em password s)) = userValue
        \<and> (isAuthenticated (snd (login fetchLogin stringify coerce em password s))
             \<longleftrightarrow> truthy userValue)"
    by (simp add: login_success isAuthenticated_def)
  show "\<forall>statusText kvs tok usr.
        fetchLogin em password = Resolved True statusText (Some (JObj kvs)) \<and>
        map_of kvs ''token'' = Some (JStr tok) \<and> map_of kvs ''user'' = Some usr \<and>
        usr \<noteq> JUndefined \<longrightarrow>
        fst (login fetchLogin stringify coerce em password s)
        \<and> localStorage (snd (login fetchLogin stringify coerce em password s)) ''token'' = Some tok
        \<and> localStorage (snd (login fetchLogin stringify coerce em password s)) ''user''
            = Some (stringify usr)
        \<and> user (snd (login fetchLogin stringify coerce em password s)) = usr"
    by (auto simp: login_def Let_def storedString_def storedJson_def split: json.splits)
  show "\<not> fst (login fetchLogin stringify coerce em password s) \<longrightarrow>
        localStorage (snd (login fetchLogin stringify coerce em password s)) = localStorage s
        \<and> user (snd (login fetchLogin stringify coerce em password s)) = user s
        \<and> loading (snd (login fetchLogin stringify coerce em password s)) = loading s"
    using login_failure_untouched [of fetchLogin stringify coerce em password s] by blast
qed

theorem login_result_witness:
  "fst (login (\<lambda>em password. Resolved True ''OK''
                 (Some (JObj [(''token'', JStr ''t0k''), (''user'', JObj [(''id'', JStr ''1'')])])))
          (\<lambda>v. ''user-json'') (\<lambda>v. None) ''a@b.c'' ''secret''
          \<lparr>localStorage = Map.empty, toasts = [], navigations = [], user = JNull, loading = False\<rparr>)
   \<and> localStorage (snd (login (\<lambda>em password. Resolved True ''OK''
                 (Some (JObj [(''token'', JStr ''t0k''), (''user'', JObj [(''id'', JStr ''1'')])])))
          (\<lambda>v. ''user-json'') (\<lambda>v. None) ''a@b.c'' ''secret''
          \<lparr>localStorage = Map.empty, toasts = [], navigations = [], user = JNull, loading = False\<rparr>))
       ''token'' = Some ''t0k''
   \<and> user (snd (login (\<lambda>em password. Resolved True ''OK''
                 (Some (JObj [(''token'', JStr ''t0k''), (''user'', JObj [(''id'', JStr ''1'')])])))
          (\<lambda>v. ''user-json'') (\<lambda>v. None) ''a@b.c'' ''secret''
          \<lparr>localStorage = Map.empty, toasts = [], navigations = [], user = JNull, loading = False\<rparr>))
       = JObj [(''id'', JStr ''1'')]"
  using login_result [of
      "\<lambda>em password. Resolved True ''OK''
                 (Some (JObj [(''token'', JStr ''t0k''), (''user'', JObj [(''id'', JStr ''1'')])]))"
      "\<lambda>v. ''user-json''" "\<lambda>v. None" "''a@b.c''" "''secret''"
      "\<lparr>localStorage = Map.empty, toasts = [], navigations = [], user = JNull, loading = False\<rparr>"]
  by (simp add: storedString_def storedJson_def)

text \<open>
  The claim as stated has \<open>login\<close> return true whenever the request succeeds. An ok
  response whose body \<open>response.json()\<close> cannot read, and an ok response whose body is
  \<open>null\<close>, land in the \<open>catch\<close> branch, and \<open>login\<close> returns false.
\<close>

theorem login_ok_unreadable_body_counterexample:
  "\<not> fst (login (\<lambda>em password. Resolved True ''OK'' None) (\<lambda>v. ''user-json'') (\<lambda>v. None)
          ''a@b.c'' ''secret''
          \<lparr>localStorage = Map.empty, toasts = [], navigations = [], user = JNull, loading = False\<rparr>)
   \<and> \<not> fst (login (\<lambda>em password. Resolved True ''OK'' (Some JNull)) (\<lambda>v. ''user-json'')
          (\<lambda>v. None) ''a@b.c'' ''secret''
          \<lparr>localStorage = Map.empty, toasts = [], navigations = [], user = JNull, loading = False\<rparr>)"
  by (simp add: login_def Let_def)

text \<open>
  Claim C3, as the code has it. With a token counted present when the code's own test of
  it succeeds and a user counted present when it is neither \<open>null\<close> nor \<open>undefined\<close>:
  after \<open>logout\<close> the three conditions (user present, token present, authenticated) are
  equivalent, all false, and neither persisted key is left; after a \<open>login\<close> on a body
  whose token is a non-empty string and whose user is truthy, \<open>login\<close> returns true, the
  three conditions are equivalent, all true, and both persisted keys are set;
  \<open>register\<close> and a \<open>login\<close> that returns false leave the session as it was, so the
  conditions are equivalent after them when they were before; after bootstrap they are
  equivalent except when a token is present and the persisted user text parses to a
  falsy value.
\<close>

theorem session_consistency:
  "consistent (logout s)
   \<and> localStorage (logout s) ''token'' = None \<and> localStorage (logout s) ''user'' = None
   \<and> (consistent s \<longrightarrow> consistent (snd (register fetchRegister em password s)))
   \<and> (consistent s \<and> \<not> fst (login fetchLogin stringify coerce em password s) \<longrightarrow>
        consistent (snd (login fetchLogin stringify coerce em password s)))
   \<and> (\<forall>statusText data tok usr.
        fetchLogin em password = Resolved True statusText (Some data) \<and>
        getProp data ''token'' = Some (JStr tok) \<and> tok \<noteq> [] \<and>
        getProp data ''user'' = Some usr \<and> truthy usr \<longrightarrow>
        fst (login fetchLogin stringify coerce em password s)
        \<and> consistent (snd (login fetchLogin stringify coerce em password s))
        \<and> isAuthenticated (snd (login fetchLogin stringify coerce em password s))
        \<and> localStorage (snd (login fetchLogin stringify coerce em password s)) ''token'' = Some tok
        \<and> localStorage (snd (login fetchLogin stringify coerce em password s)) ''user''
            = Some (stringify usr))
   \<and> (user s = JNull \<longrightarrow>
        (consistent (bootstrap parse s) \<longleftrightarrow>
           \<not> (truthyString (localStorage s ''token'') \<and>
              (\<exists>v. parse (orElse (localStorage s ''user'') ''{}'') = Some v \<and> \<not> truthy v))))"
proof (intro conjI)
  show "consistent (logout s)"
    by (simp add: logout_def consistent_def userPresent_def tokenPresent_def
        isAuthenticated_def truthyString_def)
  show "localStorage (logout s) ''token'' = None" by (simp add: logout_def)
  show "localStorage (logout s) ''user'' = None" by (simp add: logout_def)
  show "consistent s \<longrightarrow> consistent (snd (register fetchRegister em password s))"
    using consistent_cong [of "snd (register fetchRegister em password s)" s]
      register_untouched [of fetchRegister em password s] by simp
  show "consistent s \<and> \<not> fst (login fetchLogin stringify coerce em password s) \<longrightarrow>
        consistent (snd (login fetchLogin stringify coerce em password s))"
    using consistent_cong [of "snd (login fetchLogin stringify coerce em password s)" s]
      login_failure_untouched [of fetchLogin stringify coerce em password s] by simp
  show "\<forall>statusText data tok usr.
        fetchLogin em password = Resolved True statusText (Some data) \<and>
        getProp data ''token'' = Some (JStr tok) \<and> tok \<noteq> [] \<and>
        getProp data ''user'' = Some usr \<and> truthy usr \<longrightarrow>
        fst (login fetchLogin stringify coerce em password s)
        \<and> consistent (snd (login fetchLogin stringify coerce em password s))
        \<and> isAuthenticated (snd (login fetchLogin stringify coerce em password s))
        \<and> localStorage (snd (login fetchLogin stringify coerce em password s)) ''token'' = Some tok
        \<and> localStorage (snd (login fetchLogin stringify coerce em password s)) ''user''
            = Some (stringify usr)"
  proof (intro allI impI)
    fix statusText data tok usr
    assume a: "fetchLogin em password = Resolved True statusText (Some data) \<and>
        getProp data ''token'' = Some (JStr tok) \<and> tok \<noteq> [] \<and>
        getProp data ''user'' = Some usr \<and> truthy usr"
    then have present: "usr \<noteq> JNull \<and> usr \<noteq> JUndefined"
      using truthy_present [of usr] by simp
    have st: "storedString coerce (JStr tok) = Some tok" by (simp add: storedString_def)
    have sj: "storedJson stringify usr = stringify usr"
      using present by (cases usr) (simp_all add: storedJson_def)
    have run: "login fetchLogin stringify coerce em password s =
       (True,
        s\<lparr>localStorage := (localStorage s)(''token'' \<mapsto> tok, ''user'' \<mapsto> stringify usr),
          user := usr,
          toasts := toasts s @ [Toast ''Success'' ''Logged in successfully!'' Default]\<rparr>)"
      using a login_success [of fetchLogin em password statusText data "JStr tok" coerce tok usr
          stringify s] st sj by simp
    show "fst (login fetchLogin stringify coerce em password s)
        \<and> consistent (snd (login fetchLogin stringify coerce em password s))
        \<and> isAuthenticated (snd (login fetchLogin stringify coerce em password s))
        \<and> localStorage (snd (login fetchLogin stringify coerce em password s)) ''token'' = Some tok
        \<and> localStorage (snd (login fetchLogin stringify coerce em password s)) ''user''
            = Some (stringify usr)"
      using a present
      by (simp add: run consistent_def userPresent_def tokenPresent_def isAuthenticated_def
          truthyString_def)
  qed
  show "user s = JNull \<longrightarrow>
        (consistent (bootstrap parse s) \<longleftrightarrow>
           \<not> (truthyString (localStorage s ''token'') \<and>
              (\<exists>v. parse (orElse (localStorage s ''user'') ''{}'') = Some v \<and> \<not> truthy v)))"
  proof (rule impI)
    assume u: "user s = JNull"
    show "consistent (bootstrap parse s) \<longleftrightarrow>
           \<not> (truthyString (localStorage s ''token'') \<and>
              (\<exists>v. parse (orElse (localStorage s ''user'') ''{}'') = Some v \<and> \<not> truthy v))"
    proof (cases "truthyString (localStorage s ''token'')")
      case False
      then show ?thesis
        using u by (simp add: bootstrap_no_token consistent_def userPresent_def tokenPresent_def
            isAuthenticated_def)
    next
      case True
      show ?thesis
      proof (cases "parse (orElse (localStorage s ''user'') ''{}'')")
        case None
        with True show ?thesis
          using u by (simp add: bootstrap_parse_failure consistent_def userPresent_def
              tokenPresent_def isAuthenticated_def truthyString_def)
      next
        case (Some v)
        with True show ?thesis
          using truthy_present [of v]
          by (auto simp: bootstrap_parsed consistent_def userPresent_def
              tokenPresent_def isAuthenticated_def)
      qed
    qed
  qed
qed

theorem session_consistency_witness:
  "consistent (snd (login (\<lambda>em password. Resolved True ''OK''
                 (Some (JObj [(''token'', JStr ''t0k''), (''user'', JObj [(''id'', JStr ''1'')])])))
          (\<lambda>v. ''user-json'') (\<lambda>v. None) ''a@b.c'' ''secret''
          \<lparr>localStorage = Map.empty, toasts = [], navigations = [], user = JNull, loading = False\<rparr>))
   \<and> consistent (bootstrap parseLiteral
          \<lparr>localStorage = [''token'' \<mapsto> ''t0k'', ''user'' \<mapsto> ''{bad''], toasts = [],
           navigations = [], user = JNull, loading = True\<rparr>)"
  using session_consistency [of
      "\<lparr>localStorage = Map.empty, toasts = [], navigations = [], user = JNull, loading = False\<rparr>"
      "\<lambda>em password. Rejected" "''a@b.c''" "''secret''"
      "\<lambda>em password. Resolved True ''OK''
                 (Some (JObj [(''token'', JStr ''t0k''), (''user'', JObj [(''id'', JStr ''1'')])]))"
      "\<lambda>v. ''user-json''" "\<lambda>v. None" parseLiteral]
    session_consistency [of
      "\<lparr>localStorage = [''token'' \<mapsto> ''t0k'', ''user'' \<mapsto> ''{bad''], toasts = [],
           navigations = [], user = JNull, loading = True\<rparr>"
      "\<lambda>em password. Rejected" "''a@b.c''" "''secret''"
      "\<lambda>em password. Rejected" "\<lambda>v. ''user-json''" "\<lambda>v. None" parseLiteral]
  by (simp add: truthyString_def orElse_def parseLiteral_def storedString_def storedJson_def)

text \<open>
  The claim as stated holds the three conditions equivalent after every operation. From
  a store that holds a token and the user text \<open>null\<close>, bootstrap parses the text without
  failure, sets the user to \<open>null\<close> and keeps the token. A \<open>login\<close> whose response body
  is \<open>{token: "t0k", user: null}\<close> returns true and stores the token, with the user
  \<open>null\<close>.
\<close>

theorem bootstrap_null_user_counterexample:
  "tokenPresent (bootstrap parseLiteral
      \<lparr>localStorage = [''token'' \<mapsto> ''t0k'', ''user'' \<mapsto> ''null''], toasts = [],
       navigations = [], user = JNull, loading = True\<rparr>)
   \<and> \<not> userPresent (bootstrap parseLiteral
      \<lparr>localStorage = [''token'' \<mapsto> ''t0k'', ''user'' \<mapsto> ''null''], toasts = [],
       navigations = [], user = JNull, loading = True\<rparr>)
   \<and> \<not> isAuthenticated (bootstrap parseLiteral
      \<lparr>localStorage = [''token'' \<mapsto> ''t0k'', ''user'' \<mapsto> ''null''], toasts = [],
       navigations = [], user = JNull, loading = True\<rparr>)
   \<and> fst (login (\<lambda>em password. Resolved True ''OK''
                 (Some (JObj [(''token'', JStr ''t0k''), (''user'', JNull)])))
          (\<lambda>v. ''null'') (\<lambda>v. None) ''a@b.c'' ''secret''
          \<lparr>localStorage = Map.empty, toasts = [], navigations = [], user = JNull, loading = False\<rparr>)
   \<and> tokenPresent (snd (login (\<lambda>em password. Resolved True ''OK''
                 (Some (JObj [(''token'', JStr ''t0k''), (''user'', JNull)])))
          (\<lambda>v. ''null'') (\<lambda>v. None) ''a@b.c'' ''secret''
          \<lparr>localStorage = Map.empty, toasts = [], navigations = [], user = JNull, loading = False\<rparr>))
   \<and> \<not> userPresent (snd (login (\<lambda>em password. Resolved True ''OK''
                 (Some (JObj [(''token'', JStr ''t0k''), (''user'', JNull)])))
          (\<lambda>v. ''null'') (\<lambda>v. None) ''a@b.c'' ''secret''
          \<lparr>localStorage = Map.empty, toasts = [], navigations = [], user = JNull, loading = False\<rparr>))"
  by (simp add: bootstrap_def Let_def truthyString_def orElse_def parseLiteral_def
      isAuthenticated_def tokenPresent_def userPresent_def login_def storedString_def)


end
